theory Spec2Isabelle
  imports Main "HOL-Library.AList" "HOL-Library.List_Lexorder"
begin

section \<open>Python strings\<close>

text \<open>
  A Python \<open>str\<close> is a sequence of Unicode code points, so it is modelled as a list of
  natural numbers (\<open>len\<close> counts code points). String literals of the source are ASCII and
  are written through \<open>ustr\<close>.
\<close>

type_synonym codepoint = nat
type_synonym pystr = "codepoint list"

definition ustr :: "string \<Rightarrow> pystr" where
  "ustr s = map of_char s"

definition is_ascii :: "codepoint \<Rightarrow> bool" where
  "is_ascii c = (c < 128)"

text \<open>
  \<open>str.isspace\<close> of one code point (CPython's \<open>Py_UNICODE_ISSPACE\<close>); it decides what
  \<open>str.strip()\<close>, \<open>str.split()\<close> and the whitespace class of regular expressions treat as
  whitespace.
\<close>

definition is_space :: "codepoint \<Rightarrow> bool" where
  "is_space c =
     ((9 \<le> c \<and> c \<le> 13) \<or> (28 \<le> c \<and> c \<le> 32) \<or> c = 133 \<or> c = 160 \<or> c = 5760 \<or>
      (8192 \<le> c \<and> c \<le> 8202) \<or> c = 8232 \<or> c = 8233 \<or> c = 8239 \<or> c = 8287 \<or> c = 12288)"

definition lstrip_by :: "(codepoint \<Rightarrow> bool) \<Rightarrow> pystr \<Rightarrow> pystr" where
  "lstrip_by P s = dropWhile P s"

definition rstrip_by :: "(codepoint \<Rightarrow> bool) \<Rightarrow> pystr \<Rightarrow> pystr" where
  "rstrip_by P s = rev (dropWhile P (rev s))"

definition strip_by :: "(codepoint \<Rightarrow> bool) \<Rightarrow> pystr \<Rightarrow> pystr" where
  "strip_by P s = lstrip_by P (rstrip_by P s)"

text \<open>\<open>s.strip()\<close>: leading and trailing whitespace removed.\<close>

definition str_strip :: "pystr \<Rightarrow> pystr" where
  "str_strip s = strip_by is_space s"

text \<open>\<open>s.strip(chars)\<close>: leading and trailing code points that occur in \<open>chars\<close> removed.\<close>

definition strip_chars :: "pystr \<Rightarrow> pystr \<Rightarrow> pystr" where
  "strip_chars chars s = strip_by (\<lambda>c. c \<in> set chars) s"

text \<open>
  \<open>s.split()\<close> with no separator: the maximal runs of non-whitespace code points, in order.
  The first argument is the word being read.
\<close>

fun split_from :: "pystr \<Rightarrow> pystr \<Rightarrow> pystr list" where
  "split_from cur [] = (if cur = [] then [] else [cur])"
| "split_from cur (c # cs) =
     (if is_space c then (if cur = [] then split_from [] cs else cur # split_from [] cs)
      else split_from (cur @ [c]) cs)"

definition str_split :: "pystr \<Rightarrow> pystr list" where
  "str_split s = split_from [] s"

text \<open>\<open>sep.join(words)\<close>.\<close>

fun str_join :: "pystr \<Rightarrow> pystr list \<Rightarrow> pystr" where
  "str_join sep [] = []"
| "str_join sep [w] = w"
| "str_join sep (w # v # ws) = w @ sep @ str_join sep (v # ws)"

definition ascii_lower :: "codepoint \<Rightarrow> codepoint" where
  "ascii_lower c = (if 65 \<le> c \<and> c \<le> 90 then c + 32 else c)"

definition ascii_upper :: "codepoint \<Rightarrow> codepoint" where
  "ascii_upper c = (if 97 \<le> c \<and> c \<le> 122 then c - 32 else c)"

text \<open>
  The Unicode tables of the Python runtime (\<open>unicodedata\<close> and the case mappings of \<open>str\<close>)
  are not part of the repository. On a string of ASCII code points their result is fixed and
  is computed here: NFKD leaves it unchanged, \<open>lower\<close> maps \<open>A\<close>..\<open>Z\<close> to \<open>a\<close>..\<open>z\<close>,
  \<open>capitalize\<close> puts the first code point in upper case and the others in lower case.
  On any other string the result is taken from the tables, a parameter of the model.
\<close>

record unicode_lib =
  lib_nfkd :: "pystr \<Rightarrow> pystr"
  lib_lower :: "pystr \<Rightarrow> pystr"
  lib_capitalize :: "pystr \<Rightarrow> pystr"

definition str_nfkd :: "unicode_lib \<Rightarrow> pystr \<Rightarrow> pystr" where
  "str_nfkd U s = (if list_all is_ascii s then s else lib_nfkd U s)"

definition str_lower :: "unicode_lib \<Rightarrow> pystr \<Rightarrow> pystr" where
  "str_lower U s = (if list_all is_ascii s then map ascii_lower s else lib_lower U s)"

definition str_capitalize :: "unicode_lib \<Rightarrow> pystr \<Rightarrow> pystr" where
  "str_capitalize U s =
     (if list_all is_ascii s
      then (case s of [] \<Rightarrow> [] | c # cs \<Rightarrow> ascii_upper c # map ascii_lower cs)
      else lib_capitalize U s)"

text \<open>\<open>s.encode("ascii", "ignore").decode("ascii")\<close>: the non-ASCII code points are dropped.\<close>

definition encode_ascii_ignore :: "pystr \<Rightarrow> pystr" where
  "encode_ascii_ignore s = filter is_ascii s"

section \<open>utils/text_utils.py\<close>

definition normalize_text :: "unicode_lib \<Rightarrow> pystr \<Rightarrow> pystr" where
  "normalize_text U txt =
     (if txt = [] then []
      else str_strip (str_lower U (encode_ascii_ignore (str_nfkd U txt))))"

definition in_list_case_insensitive :: "unicode_lib \<Rightarrow> pystr \<Rightarrow> pystr list \<Rightarrow> bool" where
  "in_list_case_insensitive U item item_list =
     (let norm_item = normalize_text U item
      in list_ex (\<lambda>x. normalize_text U x = norm_item) item_list)"

text \<open>\<open>string.capwords(s)\<close> is \<open>' '.join(map(str.capitalize, s.split()))\<close>.\<close>

definition capwords :: "unicode_lib \<Rightarrow> pystr \<Rightarrow> pystr" where
  "capwords U s = str_join (ustr '' '') (map (str_capitalize U) (str_split s))"

definition special_words :: "pystr list" where
  "special_words =
     map ustr [''Of'', ''And'', ''The'', ''In'', ''On'', ''At'', ''To'', ''For'', ''With'', ''By'']"

definition to_title_case :: "unicode_lib \<Rightarrow> pystr \<Rightarrow> pystr" where
  "to_title_case U text =
     (if text = [] then text
      else
        (let text' = capwords U text;
             words = str_split text';
             words' = (case words of
                         [] \<Rightarrow> []
                       | w # ws \<Rightarrow> w # map (\<lambda>v. if v \<in> set special_words then str_lower U v else v) ws)
         in str_join (ustr '' '') words'))"

section \<open>Exceptions, external calls and the program monad\<close>

text \<open>
  An exception (a subclass of \<open>Exception\<close>) is its class, as far as the source tells classes
  apart in an \<open>except\<close> clause, and its message \<open>str(e)\<close>.
\<close>

datatype exn_kind = ZeroViewsError | APIError | JSONDecodeError | OtherException

datatype exn = Exn (kind: exn_kind) (message: pystr)

text \<open>
  The external services. Every call to one of them is recorded, in order, with the exception
  it raised if it raised one.
\<close>

datatype service = Wikipedia | Clock | Pageviews | Claude

type_synonym event = "service \<times> exn option"

text \<open>
  A piece of Python code is a function of the mutable state it works on (\<open>'s\<close>) and of the
  calls made so far; it gives the value it returns or the exception it raises, the state it
  leaves and the calls made.
\<close>

type_synonym ('s, 'a) prog = "'s \<Rightarrow> event list \<Rightarrow> (exn + 'a) \<times> 's \<times> event list"

definition ret :: "'a \<Rightarrow> ('s, 'a) prog" where
  "ret x s tr = (Inr x, s, tr)"

definition raise :: "exn \<Rightarrow> ('s, 'a) prog" where
  "raise e s tr = (Inl e, s, tr)"

definition bind_io :: "('s, 'a) prog \<Rightarrow> ('a \<Rightarrow> ('s, 'b) prog) \<Rightarrow> ('s, 'b) prog" where
  "bind_io m f s tr =
     (case m s tr of
        (Inl e, s', tr') \<Rightarrow> (Inl e, s', tr')
      | (Inr x, s', tr') \<Rightarrow> f x s' tr')"

text \<open>\<open>try: m except Exception as e: h e\<close>.\<close>

definition try_except :: "('s, 'a) prog \<Rightarrow> (exn \<Rightarrow> ('s, 'a) prog) \<Rightarrow> ('s, 'a) prog" where
  "try_except m h s tr =
     (case m s tr of
        (Inl e, s', tr') \<Rightarrow> h e s' tr'
      | (Inr x, s', tr') \<Rightarrow> (Inr x, s', tr'))"

definition external :: "service \<Rightarrow> exn + 'a \<Rightarrow> ('s, 'a) prog" where
  "external svc r s tr =
     (r, s, tr @ [(svc, case r of Inl e \<Rightarrow> Some e | Inr _ \<Rightarrow> None)])"

definition modify :: "('s \<Rightarrow> 's) \<Rightarrow> ('s, unit) prog" where
  "modify f s tr = (Inr (), f s, tr)"

definition get :: "('s, 's) prog" where
  "get s tr = (Inr s, s, tr)"

text \<open>A call of a function from outside: the result (or the exception) and the calls made.\<close>

definition run :: "('s, 'a) prog \<Rightarrow> 's \<Rightarrow> (exn + 'a) \<times> event list" where
  "run m s = (case m s [] of (r, s', tr) \<Rightarrow> (r, tr))"

definition calls_to :: "service \<Rightarrow> event list \<Rightarrow> nat" where
  "calls_to svc tr = length (filter (\<lambda>ev. fst ev = svc) tr)"


section \<open>utils/llm_utils.py\<close>

text \<open>
  The Anthropic client. A request is \<open>client.messages.create(...)\<close> followed by
  \<open>.content[0].text\<close>: it gives the text of the response or raises. The prompt of each of the
  three functions is a fixed text around the values listed in the request; the model name
  and \<open>max_tokens\<close> are constants of the call site.
\<close>

datatype request =
    StructureRequest pystr
  | TopicRequest pystr pystr
  | DisambiguationRequest pystr pystr pystr "pystr list"

type_synonym client = "request \<Rightarrow> exn + pystr"

text \<open>\<open>None.messages\<close> raises \<open>AttributeError\<close>.\<close>

definition messages_create :: "client option \<Rightarrow> request \<Rightarrow> ('s, pystr) prog" where
  "messages_create c req =
     (case c of
        None \<Rightarrow> raise (Exn OtherException (ustr ''NoneType object has no attribute messages''))
      | Some f \<Rightarrow> external Claude (f req))"

datatype json =
    JNull
  | JBool bool
  | JNumber pystr
  | JString pystr
  | JArray "json list"
  | JObject "(pystr \<times> json) list"

text \<open>
  \<open>re.search(r"^\s*(\[.*?\])\s*$", text, re.DOTALL)\<close>, group 1. The pattern matches when the
  first code point of \<open>text\<close> that is not whitespace is \<open>[\<close> and a later \<open>]\<close> is followed by
  whitespace only; that \<open>]\<close> is then the last code point that is not whitespace, so the lazy
  group is the stripped text.
\<close>

definition re_search_json_list :: "pystr \<Rightarrow> pystr option" where
  "re_search_json_list text =
     (let t = str_strip text
      in if 2 \<le> length t \<and> hd t = 91 \<and> last t = 93 then Some t else None)"

definition is_qa_item :: "json \<Rightarrow> bool" where
  "is_qa_item item =
     (case item of
        JObject kvs \<Rightarrow> ustr ''question'' \<in> set (map fst kvs) \<and> ustr ''answer'' \<in> set (map fst kvs)
      | _ \<Rightarrow> False)"

text \<open>
  \<open>json.loads\<close> is a parameter. The result models the list returned (\<open>Some\<close>) or \<open>None\<close>;
  the messages for the user interface (\<open>st.error\<close>, \<open>st.warning\<close>) are not modelled.
\<close>

definition structure_qa_pairs ::
  "(pystr \<Rightarrow> exn + json) \<Rightarrow> client option \<Rightarrow> pystr \<Rightarrow> ('s, json list option) prog" where
  "structure_qa_pairs json_loads client text_input =
     (if str_strip text_input = [] then ret (Some [])
      else
        try_except
          (bind_io (messages_create client (StructureRequest text_input)) (\<lambda>response_text.
             case re_search_json_list response_text of
               Some json_string \<Rightarrow>
                 (case json_loads json_string of
                    Inr structured_data \<Rightarrow>
                      (case structured_data of
                         JArray items \<Rightarrow>
                           if list_all is_qa_item items then ret (Some items) else ret None
                       | _ \<Rightarrow> ret None)
                  | Inl e \<Rightarrow> if kind e = JSONDecodeError then ret None else raise e)
             | None \<Rightarrow> ret None))
          (\<lambda>e. ret None))"

definition quote_chars :: pystr where
  "quote_chars = [34, 39]"

definition identify_main_topic ::
  "client option \<Rightarrow> pystr \<Rightarrow> pystr \<Rightarrow> ('s, pystr option) prog" where
  "identify_main_topic client question answer =
     try_except
       (bind_io (messages_create client (TopicRequest question answer)) (\<lambda>response_text.
          let topic = str_strip response_text;
              topic = strip_chars quote_chars topic
          in ret (if topic \<noteq> [] then Some topic else None)))
       (\<lambda>e. ret None)"

definition resolve_disambiguation ::
  "client option \<Rightarrow> pystr \<Rightarrow> pystr list \<Rightarrow> pystr \<Rightarrow> pystr \<Rightarrow> ('s, pystr option) prog" where
  "resolve_disambiguation client entity_name options question answer =
     (if client = None \<or> options = [] then ret None
      else
        try_except
          (bind_io
             (messages_create client
                (DisambiguationRequest entity_name question answer (take 15 options)))
             (\<lambda>response_text.
                let title = strip_chars quote_chars (str_strip response_text)
                in if title \<noteq> [] \<and> title \<noteq> ustr ''NONE'' \<and> title \<in> set options
                   then ret (Some title)
                   else ret None))
          (\<lambda>e. ret None))"

section \<open>utils/wiki_utils.py\<close>

text \<open>
  A \<open>WikipediaPage\<close> object of the \<open>wikipediaapi\<close> library fetches its data when an
  attribute is first read, so every read can raise. \<open>categories_attr\<close> and \<open>links_attr\<close>
  are the titles of \<open>page.categories.values()\<close> and of \<open>page.links.values()\<close>, in order.
\<close>

record wiki_page =
  exists_call :: "exn + bool"
  title_attr :: "exn + pystr"
  text_attr :: "exn + pystr"
  fullurl_attr :: "exn + pystr"
  categories_attr :: "exn + pystr list"
  links_attr :: "exn + pystr list"

text \<open>
  The services behind the resolver: \<open>wiki_api.page(title)\<close>; the two dates
  \<open>datetime.now()\<close> and \<open>datetime.now() - timedelta(days=n)\<close>, formatted; and
  \<open>pageviewapi.per_article\<close> for a title and the two dates, which gives the \<open>views\<close> of the
  items returned or raises.
\<close>

record world =
  wiki_api_page :: "pystr \<Rightarrow> exn + wiki_page"
  date_window :: "int \<Rightarrow> exn + pystr \<times> pystr"
  per_article :: "pystr \<Rightarrow> pystr \<Rightarrow> pystr \<Rightarrow> exn + int list"

record page_info =
  title :: pystr
  length_info :: "nat option"
  views :: "int option"
  url :: "pystr option"
  found :: bool
  error :: "pystr option"

text \<open>
  The first \<open>except\<close> clause of the helper names the class
  \<open>pageviewapi.client.ZeroViewsError\<close>. The module \<open>pageviewapi.client\<close> of the library
  has no attribute of that name, so the lookup, which Python makes when an exception reaches
  the clause, raises \<open>AttributeError\<close> with this message.
\<close>

definition zero_views_attribute_error :: exn where
  "zero_views_attribute_error =
     Exn OtherException
       (ustr ''module '' @ [39] @ ustr ''pageviewapi.client'' @ [39] @ ustr '' has no attribute ''
        @ [39] @ ustr ''ZeroViewsError'' @ [39])"

definition zero_views_error_class :: "exn + exn_kind" where
  "zero_views_error_class = Inl zero_views_attribute_error"

text \<open>
  The helper returns an \<open>int\<close> or an error string. The two dates are computed before its
  \<open>try\<close>, so an exception there leaves the helper. An exception of \<open>per_article\<close>, or of
  summing the views of its items, reaches the \<open>except\<close> clauses, which are tried in order:
  the class of the first is looked up first, and an exception of that lookup leaves the
  helper in place of the one that was being handled, before the second clause is tried.
\<close>

datatype views_result = ViewsInt int | ViewsStr pystr

definition fetch_page_views :: "world \<Rightarrow> pystr \<Rightarrow> int \<Rightarrow> ('s, views_result) prog" where
  "fetch_page_views w page_title days_to_fetch =
     bind_io (external Clock (date_window w days_to_fetch)) (\<lambda>(start_date, end_date).
       try_except
         (bind_io (external Pageviews (per_article w page_title start_date end_date)) (\<lambda>items.
            ret (ViewsInt (sum_list items))))
         (\<lambda>pv_err.
            case zero_views_error_class of
              Inl attribute_error \<Rightarrow> raise attribute_error
            | Inr cls \<Rightarrow>
                if kind pv_err = cls then ret (ViewsInt 0)
                else ret (ViewsStr (ustr ''Pageview fetch error: '' @ message pv_err))))"

text \<open>\<open>a or b\<close> on an optional string and a string: \<open>a\<close> unless it is \<open>None\<close> or empty.\<close>

definition or_else :: "pystr option \<Rightarrow> pystr \<Rightarrow> pystr" where
  "or_else a b = (case a of None \<Rightarrow> b | Some x \<Rightarrow> if x = [] then b else x)"

definition populate_from_page :: "world \<Rightarrow> int \<Rightarrow> wiki_page \<Rightarrow> (page_info, unit) prog" where
  "populate_from_page w days page =
     bind_io (modify (\<lambda>i. i\<lparr>found := True\<rparr>)) (\<lambda>_.
     bind_io (external Wikipedia (title_attr page)) (\<lambda>page_title.
     bind_io (modify (\<lambda>i. i\<lparr>title := page_title\<rparr>)) (\<lambda>_.
     bind_io (external Wikipedia (text_attr page)) (\<lambda>page_text.
     bind_io (modify (\<lambda>i. i\<lparr>length_info := Some (length page_text)\<rparr>)) (\<lambda>_.
     bind_io (external Wikipedia (fullurl_attr page)) (\<lambda>page_fullurl.
     bind_io (modify (\<lambda>i. i\<lparr>url := Some page_fullurl\<rparr>)) (\<lambda>_.
     bind_io (external Wikipedia (title_attr page)) (\<lambda>page_title.
     bind_io (fetch_page_views w page_title days) (\<lambda>views_result.
       case views_result of
         ViewsInt n \<Rightarrow> modify (\<lambda>i. i\<lparr>views := Some n\<rparr>)
       | ViewsStr msg \<Rightarrow>
           modify (\<lambda>i. i\<lparr>views := None, error := Some (or_else (error i) msg)\<rparr>))))))))))"

definition is_disambiguation :: "pystr list \<Rightarrow> bool" where
  "is_disambiguation category_titles =
     list_ex (\<lambda>t. t = ustr ''Category:All disambiguation pages'') category_titles"

text \<open>
  The inner \<open>try\<close> block of the disambiguation branch, entered when the resolver has
  selected a title: fetch the page selected. It gives \<open>True\<close> when it has executed
  \<open>return page_info\<close> and \<open>False\<close> when control goes on to the statements after it.
\<close>

definition fetch_selected_page :: "world \<Rightarrow> int \<Rightarrow> pystr \<Rightarrow> (page_info, bool) prog" where
  "fetch_selected_page w days selected_title =
     try_except
       (bind_io (external Wikipedia (wiki_api_page w selected_title)) (\<lambda>resolved_page.
        bind_io (external Wikipedia (exists_call resolved_page)) (\<lambda>resolved_exists.
        if resolved_exists then
          bind_io (external Wikipedia (categories_attr resolved_page)) (\<lambda>resolved_categories.
          if \<not> is_disambiguation resolved_categories then
            bind_io (populate_from_page w days resolved_page) (\<lambda>_. ret True)
          else ret False)
        else ret False)))
       (\<lambda>resolve_err.
          bind_io
            (modify (\<lambda>i. i\<lparr>error :=
               Some (ustr ''Error fetching resolved page '' @ [39] @ selected_title @ [39]
                     @ ustr '': '' @ message resolve_err)\<rparr>))
            (\<lambda>_. ret True))"

text \<open>
  The body of the outer \<open>try\<close>. Every path of the source ends in \<open>return page_info\<close>, which
  is \<open>get\<close> here.
\<close>

definition fetch_and_resolve ::
  "world \<Rightarrow> client option \<Rightarrow> pystr \<Rightarrow> pystr \<Rightarrow> pystr \<Rightarrow> int \<Rightarrow> (page_info, page_info) prog" where
  "fetch_and_resolve w client entity_name_title_case question answer days =
     bind_io (external Wikipedia (wiki_api_page w entity_name_title_case)) (\<lambda>page.
     bind_io (external Wikipedia (exists_call page)) (\<lambda>page_exists.
     if page_exists then
       bind_io (external Wikipedia (categories_attr page)) (\<lambda>categories.
       if is_disambiguation categories then
         bind_io (external Wikipedia (links_attr page)) (\<lambda>links.
         let options = (if links = []
                        then [entity_name_title_case @ ustr '' (disambiguation)'']
                        else links)
         in
         bind_io (resolve_disambiguation client entity_name_title_case options question answer)
           (\<lambda>selected_title.
         bind_io
           (case selected_title of
              None \<Rightarrow> ret False
            | Some selected \<Rightarrow>
                if selected = [] then ret False
                else fetch_selected_page w days selected)
           (\<lambda>returned.
              if returned then get
              else
                bind_io
                  (modify (\<lambda>i. i\<lparr>error :=
                     Some (ustr ''Disambiguation: '' @ entity_name_title_case @ ustr ''. ''
                           @ ustr ''Options: '' @ str_join (ustr '', '') (take 5 options)
                           @ ustr ''...'')\<rparr>))
                  (\<lambda>_. get))))
       else
         bind_io (populate_from_page w days page) (\<lambda>_. get))
     else
       bind_io (modify (\<lambda>i. i\<lparr>error := Some (ustr ''Page not found on Wikipedia.'')\<rparr>))
         (\<lambda>_. get)))"

text \<open>
  \<open>get_wikipedia_data\<close>: the value returned or the exception raised, and the calls made.
  The messages written to the user interface (\<open>st.error\<close>) and the cache around the
  function (\<open>st.cache_data\<close>) are not modelled; an exception is a subclass of \<open>Exception\<close>,
  which is what the \<open>except\<close> clauses of the source catch.
\<close>

definition get_wikipedia_data ::
  "unicode_lib \<Rightarrow> world \<Rightarrow> client option \<Rightarrow> pystr \<Rightarrow> pystr \<Rightarrow> pystr \<Rightarrow> int
     \<Rightarrow> (exn + page_info) \<times> event list" where
  "get_wikipedia_data U w client entity_name question answer days =
     (let entity_name_title_case = to_title_case U entity_name;
          page_info = \<lparr>title = entity_name_title_case, length_info = None, views = None,
                       url = None, found = False, error = None\<rparr>
      in run
           (try_except
              (fetch_and_resolve w client entity_name_title_case question answer days)
              (\<lambda>gen_err.
                 bind_io
                   (modify (\<lambda>i. i\<lparr>error := Some (ustr ''Unexpected error: '' @ message gen_err)\<rparr>))
                   (\<lambda>_. get)))
           page_info)"

section \<open>app.py\<close>

text \<open>
  The entity lists of one question-answer pair. \<open>extracted\<close> is what \<open>extract_entities\<close>
  returned for the answer; the literal answer is appended when no entry equals it after
  normalisation.
\<close>

definition answer_entities :: "unicode_lib \<Rightarrow> pystr list \<Rightarrow> pystr \<Rightarrow> pystr list" where
  "answer_entities U extracted answer =
     (if answer \<noteq> [] \<and> \<not> in_list_case_insensitive U answer extracted
      then extracted @ [answer] else extracted)"

text \<open>
  The dictionary \<open>combined_entities\<close>, as the list of its items in insertion order: an
  assignment to a key that is present replaces the value in place, an assignment to a new key
  appends an item. \<open>main_topic\<close> can be \<open>None\<close>. \<open>store_entity\<close> is the body of the inner loop.
\<close>

definition store_entity ::
  "unicode_lib \<Rightarrow> (pystr \<times> pystr) list \<Rightarrow> pystr option \<Rightarrow> (pystr \<times> pystr) list" where
  "store_entity U d entity =
     (case entity of
        None \<Rightarrow> d
      | Some e \<Rightarrow> if e \<noteq> [] then AList.update (normalize_text U e) e d else d)"

definition combined_entities ::
  "unicode_lib \<Rightarrow> pystr list \<Rightarrow> pystr list \<Rightarrow> pystr option \<Rightarrow> (pystr \<times> pystr) list" where
  "combined_entities U answer_ents question_ents main_topic =
     foldl (\<lambda>d entity_list. foldl (store_entity U) d entity_list) []
       [map Some answer_ents, map Some question_ents, [main_topic]]"

definition unique_entities_to_fetch :: "unicode_lib \<Rightarrow> (pystr \<times> pystr) list \<Rightarrow> pystr list" where
  "unique_entities_to_fetch U combined = sort_key (str_lower U) (map snd combined)"

section \<open>Outcomes of a program\<close>

text \<open>
  \<open>wp m Q E s tr\<close>: run from the state \<open>s\<close> after the calls \<open>tr\<close>, the program \<open>m\<close> either
  returns a value that satisfies \<open>Q\<close> or raises an exception that satisfies \<open>E\<close>, each
  together with the state left and the calls made.
\<close>

definition wp ::
  "('s, 'a) prog \<Rightarrow> ('a \<Rightarrow> 's \<Rightarrow> event list \<Rightarrow> bool) \<Rightarrow> (exn \<Rightarrow> 's \<Rightarrow> event list \<Rightarrow> bool)
     \<Rightarrow> 's \<Rightarrow> event list \<Rightarrow> bool" where
  "wp m Q E s tr =
     (case m s tr of
        (Inl e, s', tr') \<Rightarrow> E e s' tr'
      | (Inr x, s', tr') \<Rightarrow> Q x s' tr')"

section \<open>Sample collaborators\<close>

text \<open>
  Concrete stand-ins for the collaborators, used to run the model on examples. The Unicode
  tables are cut down to the two letters of the example \<open>Angstrom\<close> written with its accents:
  U+00C5 decomposes to \<open>A\<close> and U+030A, U+00F6 to \<open>o\<close> and U+0308, and U+00C5 is the upper
  case of U+00E5.
\<close>

definition sample_unicode :: unicode_lib where
  "sample_unicode =
     \<lparr>lib_nfkd = (\<lambda>s. concat (map (\<lambda>c. if c = 197 then [65, 778]
                                         else if c = 246 then [111, 776] else [c]) s)),
      lib_lower = (\<lambda>s. map (\<lambda>c. if c = 197 then 229 else ascii_lower c) s),
      lib_capitalize = (\<lambda>s. case s of
                              [] \<Rightarrow> []
                            | c # cs \<Rightarrow> (if c = 229 then 197 else ascii_upper c)
                                       # map (\<lambda>c. if c = 197 then 229 else ascii_lower c) cs)\<rparr>"

definition article :: "pystr \<Rightarrow> pystr \<Rightarrow> pystr \<Rightarrow> wiki_page" where
  "article t body link =
     \<lparr>exists_call = Inr True, title_attr = Inr t, text_attr = Inr body, fullurl_attr = Inr link,
      categories_attr = Inr [ustr ''Category:Living people''], links_attr = Inr []\<rparr>"

definition disambiguation_page :: "pystr \<Rightarrow> pystr list \<Rightarrow> wiki_page" where
  "disambiguation_page t targets =
     \<lparr>exists_call = Inr True, title_attr = Inr t, text_attr = Inr (ustr ''may refer to''),
      fullurl_attr = Inr (ustr ''https://en.wikipedia.org/wiki/'' @ t),
      categories_attr = Inr [ustr ''Category:All disambiguation pages''],
      links_attr = Inr targets\<rparr>"

definition missing_page :: "pystr \<Rightarrow> wiki_page" where
  "missing_page t =
     \<lparr>exists_call = Inr False, title_attr = Inr t, text_attr = Inr [], fullurl_attr = Inr [],
      categories_attr = Inr [], links_attr = Inr []\<rparr>"

text \<open>
  A small Wikipedia: two articles, a disambiguation page one of whose targets is an article
  and another a disambiguation page again, a title whose lookup fails in transport, and no
  page under any other title. The pageview service fails for \<open>Berlin\<close>.
\<close>

definition sample_world :: world where
  "sample_world =
     \<lparr>wiki_api_page = (\<lambda>t.
        if t = ustr ''Paris''
          then Inr (article t (ustr ''Paris is the capital of France.'')
                      (ustr ''https://en.wikipedia.org/wiki/Paris''))
        else if t = ustr ''Berlin''
          then Inr (article t (ustr ''Berlin is the capital of Germany.'')
                      (ustr ''https://en.wikipedia.org/wiki/Berlin''))
        else if t = ustr ''Mercury''
          then Inr (disambiguation_page t
                      [ustr ''Mercury (planet)'', ustr ''Mercury (element)'',
                       ustr ''Mercury (name)''])
        else if t = ustr ''Mercury (planet)''
          then Inr (article t (ustr ''Mercury is the first planet from the Sun.'')
                      (ustr ''https://en.wikipedia.org/wiki/Mercury_(planet)''))
        else if t = ustr ''Mercury (name)''
          then Inr (disambiguation_page t [ustr ''Freddie Mercury''])
        else if t = ustr ''Offline''
          then Inl (Exn OtherException (ustr ''connection reset''))
        else Inr (missing_page t)),
      date_window = (\<lambda>days. Inr (ustr ''20250101'', ustr ''20260101'')),
      per_article = (\<lambda>t start_date end_date.
        if t = ustr ''Berlin'' then Inl (Exn OtherException (ustr ''503 Service Unavailable''))
        else Inr [100, 250, 75])\<rparr>"

text \<open>A client that answers every request with the same text, and one that always fails.\<close>

definition sample_client :: "pystr \<Rightarrow> client" where
  "sample_client response_text = (\<lambda>req. Inr response_text)"

definition failing_client :: client where
  "failing_client = (\<lambda>req. Inl (Exn APIError (ustr ''overloaded'')))"

text \<open>Sixteen options, one more than a request shows.\<close>

definition sixteen_options :: "pystr list" where
  "sixteen_options =
     map (\<lambda>c. ustr ''John Smith ('' @ [c] @ ustr '')'') (ustr ''ABCDEFGHIJKLMNOP'')"

text \<open>The example of the specification, with its accents: U+00C5 and U+00F6.\<close>

definition angstrom_accented :: pystr where
  "angstrom_accented = [197, 110, 103, 115, 116, 114, 246, 109]"

section \<open>Properties of the string functions\<close>

lemma is_space_ascii_lower: "is_space (ascii_lower c) = is_space c"
  by (auto simp: is_space_def ascii_lower_def)

lemma is_ascii_ascii_lower: "is_ascii c \<Longrightarrow> is_ascii (ascii_lower c)"
  by (auto simp: is_ascii_def ascii_lower_def)

lemma ascii_lower_idem: "ascii_lower (ascii_lower c) = ascii_lower c"
  by (auto simp: ascii_lower_def)

lemma dropWhile_map_same: "(\<And>c. P (f c) = P c) \<Longrightarrow> dropWhile P (map f s) = map f (dropWhile P s)"
  by (induction s) auto

lemma strip_by_map: "(\<And>c. P (f c) = P c) \<Longrightarrow> strip_by P (map f s) = map f (strip_by P s)"
  by (simp add: strip_by_def lstrip_by_def rstrip_by_def dropWhile_map_same rev_map)

lemma rstrip_by_Nil_or_last: "rstrip_by P s = [] \<or> \<not> P (last (rstrip_by P s))"
  unfolding rstrip_by_def
  by (metis hd_dropWhile last_rev rev_is_Nil_conv rev_rev_ident)

lemma rstrip_by_fix: "s = [] \<or> \<not> P (last s) \<Longrightarrow> rstrip_by P s = s"
  unfolding rstrip_by_def
  by (metis dropWhile.simps(1) dropWhile_eq_self_iff hd_rev rev_is_Nil_conv rev_rev_ident)

lemma lstrip_by_fix: "s = [] \<or> \<not> P (hd s) \<Longrightarrow> lstrip_by P s = s"
  unfolding lstrip_by_def by (cases s) auto

lemma lstrip_by_Nil_or_hd: "lstrip_by P s = [] \<or> \<not> P (hd (lstrip_by P s))"
  unfolding lstrip_by_def by (metis hd_dropWhile)

lemma last_lstrip_by: "lstrip_by P s \<noteq> [] \<Longrightarrow> last (lstrip_by P s) = last s"
  unfolding lstrip_by_def
  by (metis append_Nil2 last_appendR takeWhile_dropWhile_id)

lemma strip_by_idem: "strip_by P (strip_by P s) = strip_by P s"
proof -
  let ?u = "strip_by P s"
  have a: "?u = [] \<or> \<not> P (last ?u)"
  proof (cases "?u = []")
    case True
    then show ?thesis by simp
  next
    case False
    then have ne: "lstrip_by P (rstrip_by P s) \<noteq> []" by (simp add: strip_by_def)
    then have "rstrip_by P s \<noteq> []" by (auto simp: lstrip_by_def)
    with rstrip_by_Nil_or_last [of P s] have "\<not> P (last (rstrip_by P s))" by simp
    with last_lstrip_by [OF ne] show ?thesis by (simp add: strip_by_def)
  qed
  have b: "?u = [] \<or> \<not> P (hd ?u)"
    unfolding strip_by_def by (rule lstrip_by_Nil_or_hd)
  show ?thesis
    using rstrip_by_fix [of ?u P] lstrip_by_fix [of ?u P] a b
    by (simp add: strip_by_def [of P "strip_by P s"])
qed

lemma set_strip_by: "set (strip_by P s) \<subseteq> set s"
  unfolding strip_by_def lstrip_by_def rstrip_by_def
  by (metis (no_types, lifting) set_dropWhileD set_rev subsetI)

lemma normalize_text_ascii: "list_all is_ascii (normalize_text U s)"
proof (cases "s = []")
  case True
  then show ?thesis by (simp add: normalize_text_def)
next
  case False
  let ?x = "encode_ascii_ignore (str_nfkd U s)"
  have x: "list_all is_ascii ?x" by (simp add: encode_ascii_ignore_def list_all_iff)
  then have "list_all is_ascii (map ascii_lower ?x)"
    by (simp add: list_all_iff is_ascii_ascii_lower)
  then have "list_all is_ascii (str_strip (map ascii_lower ?x))"
    using set_strip_by [of is_space "map ascii_lower ?x"]
    unfolding list_all_iff str_strip_def by blast
  then show ?thesis using False x by (simp add: normalize_text_def str_lower_def)
qed

lemma normalize_idem: "normalize_text U (normalize_text U s) = normalize_text U s"
proof (cases "normalize_text U s = []")
  case True
  then show ?thesis by (simp add: normalize_text_def)
next
  case False
  let ?x = "encode_ascii_ignore (str_nfkd U s)"
  have x: "list_all is_ascii ?x" by (simp add: encode_ascii_ignore_def list_all_iff)
  have r: "normalize_text U s = str_strip (map ascii_lower ?x)"
    using False x by (auto simp: normalize_text_def str_lower_def)
  have a: "list_all is_ascii (normalize_text U s)" by (rule normalize_text_ascii)
  have "normalize_text U (normalize_text U s) = str_strip (map ascii_lower (normalize_text U s))"
    using False a by (simp add: normalize_text_def [of U "normalize_text U s"] str_nfkd_def str_lower_def encode_ascii_ignore_def list_all_iff)
  also have "\<dots> = str_strip (map ascii_lower (str_strip (map ascii_lower ?x)))" by (simp only: r)
  also have "\<dots> = str_strip (map ascii_lower ?x)"
    by (simp add: str_strip_def strip_by_map is_space_ascii_lower strip_by_idem ascii_lower_idem o_def)
  finally show ?thesis using r by simp
qed

section \<open>Rules for the outcomes of a program\<close>

lemma wp_ret: "wp (ret x) Q E s tr = Q x s tr"
  by (simp add: wp_def ret_def)

lemma wp_raise: "wp (raise e) Q E s tr = E e s tr"
  by (simp add: wp_def raise_def)

lemma wp_bind: "wp (bind_io m f) Q E s tr = wp m (\<lambda>x. wp (f x) Q E) E s tr"
  by (simp add: wp_def bind_io_def split: prod.splits sum.splits)

lemma wp_try: "wp (try_except m h) Q E s tr = wp m Q (\<lambda>e. wp (h e) Q E) s tr"
  by (simp add: wp_def try_except_def split: prod.splits sum.splits)

lemma wp_external:
  "wp (external svc r) Q E s tr =
     (case r of Inl e \<Rightarrow> E e s (tr @ [(svc, Some e)]) | Inr x \<Rightarrow> Q x s (tr @ [(svc, None)]))"
  by (simp add: wp_def external_def split: sum.splits)

lemma wp_modify: "wp (modify g) Q E s tr = Q () (g s) tr"
  by (simp add: wp_def modify_def)

lemma wp_get: "wp get Q E s tr = Q s s tr"
  by (simp add: wp_def get_def)

lemma wp_run: "P (run m s) = wp m (\<lambda>x s' tr. P (Inr x, tr)) (\<lambda>e s' tr. P (Inl e, tr)) s []"
  by (simp add: wp_def run_def split: prod.splits sum.splits)

lemma wp_mono:
  "wp m Q E s tr \<Longrightarrow> (\<And>x s' tr'. Q x s' tr' \<Longrightarrow> Q' x s' tr') \<Longrightarrow>
   (\<And>e s' tr'. E e s' tr' \<Longrightarrow> E' e s' tr') \<Longrightarrow> wp m Q' E' s tr"
  by (auto simp: wp_def split: prod.splits sum.splits)

lemmas wp_simps = wp_ret wp_raise wp_bind wp_try wp_external wp_modify wp_get

lemma wp_fetch_page_views:
  "wp (fetch_page_views w t d) Q E s tr =
     (case date_window w d of
        Inl e \<Rightarrow> E e s (tr @ [(Clock, Some e)])
      | Inr (a, b) \<Rightarrow>
          (case per_article w t a b of
             Inr items \<Rightarrow> Q (ViewsInt (sum_list items)) s (tr @ [(Clock, None), (Pageviews, None)])
           | Inl e \<Rightarrow> E zero_views_attribute_error s (tr @ [(Clock, None), (Pageviews, Some e)])))"
  by (simp add: fetch_page_views_def zero_views_error_class_def wp_simps
      split: sum.splits prod.splits)

lemma wp_resolve_disambiguation:
  "wp (resolve_disambiguation client name options q a) Q E s tr =
     (case client of
        None \<Rightarrow> Q None s tr
      | Some c \<Rightarrow>
          if options = [] then Q None s tr
          else
            (case c (DisambiguationRequest name q a (take 15 options)) of
               Inl e \<Rightarrow> Q None s (tr @ [(Claude, Some e)])
             | Inr text \<Rightarrow>
                 Q (let t = strip_chars quote_chars (str_strip text)
                    in if t \<noteq> [] \<and> t \<noteq> ustr ''NONE'' \<and> t \<in> set options then Some t else None)
                   s (tr @ [(Claude, None)])))"
proof (cases client)
  case None
  then show ?thesis by (simp add: resolve_disambiguation_def wp_simps)
next
  case (Some c)
  show ?thesis
  proof (cases "options = []")
    case True
    with Some show ?thesis by (simp add: resolve_disambiguation_def wp_simps)
  next
    case False
    with Some show ?thesis
      by (cases "c (DisambiguationRequest name q a (take 15 options))")
         (simp_all add: resolve_disambiguation_def messages_create_def wp_simps Let_def)
  qed
qed

subsection \<open>The blocks of the resolver\<close>


lemma populate_claude:
  "wp (populate_from_page w days page)
      (\<lambda>_ s' tr'. calls_to Claude tr' = calls_to Claude tr)
      (\<lambda>e s' tr'. calls_to Claude tr' = calls_to Claude tr) s tr"
  by (simp add: populate_from_page_def wp_simps wp_fetch_page_views calls_to_def
      split: sum.splits prod.splits option.splits)

lemma populate_title:
  "wp (populate_from_page w days page)
      (\<lambda>_ s' tr'. found s' \<and> (title s' = title s \<or> title_attr page = Inr (title s')))
      (\<lambda>e s' tr'. found s' \<and> (title s' = title s \<or> title_attr page = Inr (title s'))) s tr"
  by (simp add: populate_from_page_def wp_simps wp_fetch_page_views
      split: sum.splits prod.splits option.splits)




section \<open>The claims\<close>

text \<open>
  C7. \<open>normalize_text\<close> is idempotent on every string, and the accented and the plain
  spelling of \<open>Angstrom\<close> have the same normal form. The decomposition of the accented
  spelling is a fact of the Unicode tables, which are a parameter: U+00C5 is \<open>A\<close> followed by
  U+030A and U+00F6 is \<open>o\<close> followed by U+0308.
\<close>

theorem normalize_text_idempotent:
  "normalize_text U (normalize_text U s) = normalize_text U s \<and>
   (lib_nfkd U angstrom_accented = [65, 778, 110, 103, 115, 116, 114, 111, 776, 109]
      \<longrightarrow> normalize_text U angstrom_accented = normalize_text U (ustr ''angstrom''))"
proof
  show "normalize_text U (normalize_text U s) = normalize_text U s"
    by (rule normalize_idem)
next
  show "lib_nfkd U angstrom_accented = [65, 778, 110, 103, 115, 116, 114, 111, 776, 109]
      \<longrightarrow> normalize_text U angstrom_accented = normalize_text U (ustr ''angstrom'')"
    by (simp add: normalize_text_def str_nfkd_def str_lower_def encode_ascii_ignore_def
        angstrom_accented_def ustr_def is_ascii_def ascii_lower_def)
qed

theorem normalize_text_idempotent_witness:
  "lib_nfkd sample_unicode angstrom_accented = [65, 778, 110, 103, 115, 116, 114, 111, 776, 109] \<and>
   normalize_text sample_unicode (normalize_text sample_unicode angstrom_accented)
     = normalize_text sample_unicode angstrom_accented \<and>
   normalize_text sample_unicode angstrom_accented = normalize_text sample_unicode (ustr ''angstrom'') \<and>
   normalize_text sample_unicode angstrom_accented = ustr ''angstrom''"
proof -
  have h: "lib_nfkd sample_unicode angstrom_accented = [65, 778, 110, 103, 115, 116, 114, 111, 776, 109]"
    by (simp add: sample_unicode_def angstrom_accented_def)
  have v: "normalize_text sample_unicode (ustr ''angstrom'') = ustr ''angstrom''"
    by (simp add: normalize_text_def str_nfkd_def str_lower_def encode_ascii_ignore_def
        ustr_def is_ascii_def ascii_lower_def str_strip_def strip_by_def lstrip_by_def rstrip_by_def is_space_def)
  from normalize_text_idempotent [of sample_unicode angstrom_accented] h v show ?thesis by simp
qed

subsection \<open>Definitions unfolded to run an example\<close>

lemmas str_eval = ustr_def is_space_def is_ascii_def str_strip_def strip_by_def lstrip_by_def rstrip_by_def
  strip_chars_def str_split_def ascii_lower_def ascii_upper_def str_nfkd_def str_lower_def str_capitalize_def
  encode_ascii_ignore_def normalize_text_def capwords_def special_words_def to_title_case_def

lemmas io_eval = ret_def raise_def bind_io_def try_except_def external_def modify_def get_def run_def
  messages_create_def

lemmas wiki_eval = get_wikipedia_data_def fetch_and_resolve_def fetch_selected_page_def populate_from_page_def
  fetch_page_views_def zero_views_error_class_def resolve_disambiguation_def is_disambiguation_def
  or_else_def quote_chars_def

lemmas sample_eval = sample_unicode_def sample_world_def article_def disambiguation_page_def
  missing_page_def sample_client_def failing_client_def



text \<open>
  C8. When the page looked up under the title-cased name does not exist, the result has
  \<open>found = False\<close>, the error \<open>Page not found on Wikipedia.\<close>, and neither views nor length;
  its title is the title-cased name and its URL is absent.
\<close>

theorem page_not_found:
  assumes "wiki_api_page w (to_title_case U entity_name) = Inr page"
    and "exists_call page = Inr False"
  shows "fst (get_wikipedia_data U w client entity_name question answer days) =
           Inr \<lparr>title = to_title_case U entity_name, length_info = None, views = None, url = None,
                found = False, error = Some (ustr ''Page not found on Wikipedia.'')\<rparr>"
  using assms by (simp add: get_wikipedia_data_def fetch_and_resolve_def io_eval)

theorem page_not_found_witness:
  "wiki_api_page sample_world (to_title_case sample_unicode (ustr ''atlantis city'')) =
     Inr (missing_page (ustr ''Atlantis City'')) \<and>
   exists_call (missing_page (ustr ''Atlantis City'')) = Inr False \<and>
   fst (get_wikipedia_data sample_unicode sample_world None (ustr ''atlantis city'') [] [] 365) =
     Inr \<lparr>title = ustr ''Atlantis City'', length_info = None, views = None, url = None,
          found = False, error = Some (ustr ''Page not found on Wikipedia.'')\<rparr>"
proof -
  have t: "to_title_case sample_unicode (ustr ''atlantis city'') = ustr ''Atlantis City''"
    by (simp add: str_eval)
  have a: "wiki_api_page sample_world (to_title_case sample_unicode (ustr ''atlantis city'')) =
     Inr (missing_page (ustr ''Atlantis City''))"
    unfolding t by (simp add: sample_world_def ustr_def)
  have b: "exists_call (missing_page (ustr ''Atlantis City'')) = Inr False"
    by (simp add: missing_page_def)
  from page_not_found [OF a b, of None "[]" "[]" 365] a b t show ?thesis by simp
qed

lemma populate_article:
  assumes "title_attr page = Inr t" and "text_attr page = Inr body" and "fullurl_attr page = Inr link"
  shows "wp (populate_from_page w days page)
           (\<lambda>_ s' tr'. found s' \<and> title s' = t \<and> length_info s' = Some (length body) \<and>
              url s' = Some link \<and> error s' = error s \<and>
              (\<exists>sd ed items. date_window w days = Inr (sd, ed) \<and>
                 per_article w t sd ed = Inr items \<and> views s' = Some (sum_list items)))
           (\<lambda>e s' tr'. found s' \<and> title s' = t \<and> length_info s' = Some (length body) \<and>
              url s' = Some link \<and> views s' = views s \<and> error s' = error s \<and>
              (date_window w days = Inl e \<or>
               (\<exists>sd ed x. date_window w days = Inr (sd, ed) \<and> per_article w t sd ed = Inl x \<and>
                  e = zero_views_attribute_error)))
           s tr"
  using assms
  by (auto simp add: populate_from_page_def wp_simps wp_fetch_page_views
      split: sum.splits prod.splits)

lemma run_resolve_disambiguation:
  "fst (run (resolve_disambiguation client name options q a) u) = Inr (Some sel) \<Longrightarrow>
   wp (resolve_disambiguation client name options q a) Q E s tr = Q (Some sel) s (tr @ [(Claude, None)])"
  apply (subst (asm) wp_run [where P = "\<lambda>out. fst out = Inr (Some sel)"])
  apply (auto simp add: wp_resolve_disambiguation Let_def split: option.splits sum.splits if_splits)
  done

lemma resolve_disambiguation_nonempty:
  "fst (run (resolve_disambiguation client name options q a) u) = Inr (Some sel) \<Longrightarrow> sel \<noteq> []"
  apply (subst (asm) wp_run [where P = "\<lambda>out. fst out = Inr (Some sel)"])
  apply (auto simp add: wp_resolve_disambiguation Let_def split: option.splits sum.splits if_splits)
  done

lemma unexpected_is_not_pageview_error:
  "ustr ''Unexpected error: '' @ m \<noteq> ustr ''Pageview fetch error: '' @ m'"
  by (simp add: ustr_def)

lemma resolved_is_not_pageview_error:
  "ustr ''Error fetching resolved page '' @ m \<noteq> ustr ''Pageview fetch error: '' @ m'"
  by (simp add: ustr_def)

text \<open>
  C5. The result does not record the pageview failure. When the resolver reaches an
  article, directly under the title-cased name or as the title selected on a disambiguation
  page, and the pageview service raises an exception, the result has \<open>found = True\<close>, the
  title, length and URL of the article and no views, as the claim says; but its error is
  the message of the \<open>AttributeError\<close> raised by the first \<open>except\<close> clause of the helper,
  behind \<open>Unexpected error:\<close> on the direct route and behind \<open>Error fetching resolved page\<close>
  on the other, whatever the pageview service reported. The text \<open>Pageview fetch error:\<close>
  that the helper builds for this case is never returned.
\<close>

theorem pageview_failure_error_lost:
  assumes art: "exists_call page = Inr True" "categories_attr page = Inr cats"
      "\<not> is_disambiguation cats" "title_attr page = Inr t" "text_attr page = Inr body"
      "fullurl_attr page = Inr link"
    and pv: "date_window w days = Inr (sd, ed)" "per_article w t sd ed = Inl e"
  shows "(wiki_api_page w (to_title_case U entity_name) = Inr page \<longrightarrow>
          fst (get_wikipedia_data U w client entity_name question answer days) =
            Inr \<lparr>title = t, length_info = Some (length body), views = None, url = Some link,
                 found = True,
                 error = Some (ustr ''Unexpected error: '' @ message zero_views_attribute_error)\<rparr>) \<and>
         (wiki_api_page w (to_title_case U entity_name) = Inr d \<and> exists_call d = Inr True \<and>
          categories_attr d = Inr dcats \<and> is_disambiguation dcats \<and> links_attr d = Inr links \<and>
          fst (run (resolve_disambiguation client (to_title_case U entity_name)
                 (if links = [] then [to_title_case U entity_name @ ustr '' (disambiguation)'']
                  else links) question answer) ()) = Inr (Some sel) \<and>
          wiki_api_page w sel = Inr page \<longrightarrow>
          fst (get_wikipedia_data U w client entity_name question answer days) =
            Inr \<lparr>title = t, length_info = Some (length body), views = None, url = Some link,
                 found = True,
                 error = Some (ustr ''Error fetching resolved page '' @ [39] @ sel @ [39]
                               @ ustr '': '' @ message zero_views_attribute_error)\<rparr>) \<and>
         ustr ''Unexpected error: '' @ message zero_views_attribute_error
           \<noteq> ustr ''Pageview fetch error: '' @ message e \<and>
         ustr ''Error fetching resolved page '' @ [39] @ sel @ [39] @ ustr '': ''
             @ message zero_views_attribute_error
           \<noteq> ustr ''Pageview fetch error: '' @ message e"
proof (intro conjI impI)
  assume direct: "wiki_api_page w (to_title_case U entity_name) = Inr page"
  show "fst (get_wikipedia_data U w client entity_name question answer days) =
            Inr \<lparr>title = t, length_info = Some (length body), views = None, url = Some link,
                 found = True,
                 error = Some (ustr ''Unexpected error: '' @ message zero_views_attribute_error)\<rparr>"
    unfolding get_wikipedia_data_def Let_def
    apply (subst wp_run [where P = "\<lambda>out. fst out =
            Inr \<lparr>title = t, length_info = Some (length body), views = None, url = Some link,
                 found = True,
                 error = Some (ustr ''Unexpected error: '' @ message zero_views_attribute_error)\<rparr>"])
    apply (simp add: fetch_and_resolve_def wp_simps direct art)
    apply (rule wp_mono [OF populate_article [OF art(4) art(5) art(6)]])
    using pv apply (auto simp add: wp_simps)
    done
next
  assume "wiki_api_page w (to_title_case U entity_name) = Inr d \<and> exists_call d = Inr True \<and>
          categories_attr d = Inr dcats \<and> is_disambiguation dcats \<and> links_attr d = Inr links \<and>
          fst (run (resolve_disambiguation client (to_title_case U entity_name)
                 (if links = [] then [to_title_case U entity_name @ ustr '' (disambiguation)'']
                  else links) question answer) ()) = Inr (Some sel) \<and>
          wiki_api_page w sel = Inr page"
  then have d: "wiki_api_page w (to_title_case U entity_name) = Inr d" "exists_call d = Inr True"
       "categories_attr d = Inr dcats" "is_disambiguation dcats" "links_attr d = Inr links"
    and sel: "fst (run (resolve_disambiguation client (to_title_case U entity_name)
                 (if links = [] then [to_title_case U entity_name @ ustr '' (disambiguation)'']
                  else links) question answer) ()) = Inr (Some sel)"
    and p: "wiki_api_page w sel = Inr page"
    by blast+
  note ne = resolve_disambiguation_nonempty [OF sel]
  show "fst (get_wikipedia_data U w client entity_name question answer days) =
            Inr \<lparr>title = t, length_info = Some (length body), views = None, url = Some link,
                 found = True,
                 error = Some (ustr ''Error fetching resolved page '' @ [39] @ sel @ [39]
                               @ ustr '': '' @ message zero_views_attribute_error)\<rparr>"
    unfolding get_wikipedia_data_def Let_def
    apply (subst wp_run [where P = "\<lambda>out. fst out =
            Inr \<lparr>title = t, length_info = Some (length body), views = None, url = Some link,
                 found = True,
                 error = Some (ustr ''Error fetching resolved page '' @ [39] @ sel @ [39]
                               @ ustr '': '' @ message zero_views_attribute_error)\<rparr>"])
    apply (simp add: fetch_and_resolve_def wp_simps d Let_def run_resolve_disambiguation [OF sel] ne
        fetch_selected_page_def p art split del: if_split)
    apply (rule wp_mono [OF populate_article [OF art(4) art(5) art(6)]])
    using pv apply (auto simp add: wp_simps)
    done
next
  show "ustr ''Unexpected error: '' @ message zero_views_attribute_error
           \<noteq> ustr ''Pageview fetch error: '' @ message e"
    by (rule unexpected_is_not_pageview_error)
next
  show "ustr ''Error fetching resolved page '' @ [39] @ sel @ [39] @ ustr '': ''
             @ message zero_views_attribute_error
           \<noteq> ustr ''Pageview fetch error: '' @ message e"
    by (rule resolved_is_not_pageview_error)
qed

theorem pageview_failure_error_lost_witness:
  "exists_call (article (ustr ''Berlin'') (ustr ''Berlin is the capital of Germany.'')
                  (ustr ''https://en.wikipedia.org/wiki/Berlin'')) = Inr True \<and>
   wiki_api_page sample_world (to_title_case sample_unicode (ustr ''berlin'')) =
     Inr (article (ustr ''Berlin'') (ustr ''Berlin is the capital of Germany.'')
            (ustr ''https://en.wikipedia.org/wiki/Berlin'')) \<and>
   date_window sample_world 365 = Inr (ustr ''20250101'', ustr ''20260101'') \<and>
   per_article sample_world (ustr ''Berlin'') (ustr ''20250101'') (ustr ''20260101'') =
     Inl (Exn OtherException (ustr ''503 Service Unavailable'')) \<and>
   fst (get_wikipedia_data sample_unicode sample_world None (ustr ''berlin'') [] [] 365) =
     Inr \<lparr>title = ustr ''Berlin'',
          length_info = Some (length (ustr ''Berlin is the capital of Germany.'')),
          views = None, url = Some (ustr ''https://en.wikipedia.org/wiki/Berlin''),
          found = True,
          error = Some (ustr ''Unexpected error: module '' @ [39] @ ustr ''pageviewapi.client''
                        @ [39] @ ustr '' has no attribute '' @ [39] @ ustr ''ZeroViewsError''
                        @ [39])\<rparr>"
proof -
  let ?page = "article (ustr ''Berlin'') (ustr ''Berlin is the capital of Germany.'')
                  (ustr ''https://en.wikipedia.org/wiki/Berlin'')"
  have t: "to_title_case sample_unicode (ustr ''berlin'') = ustr ''Berlin''"
    by (simp add: str_eval)
  have a1: "exists_call ?page = Inr True"
    and a2: "categories_attr ?page = Inr [ustr ''Category:Living people'']"
    and a3: "\<not> is_disambiguation [ustr ''Category:Living people'']"
    and a4: "title_attr ?page = Inr (ustr ''Berlin'')"
    and a5: "text_attr ?page = Inr (ustr ''Berlin is the capital of Germany.'')"
    and a6: "fullurl_attr ?page = Inr (ustr ''https://en.wikipedia.org/wiki/Berlin'')"
    by (simp_all add: article_def is_disambiguation_def ustr_def)
  have r: "wiki_api_page sample_world (to_title_case sample_unicode (ustr ''berlin'')) = Inr ?page"
    unfolding t by (simp add: sample_world_def ustr_def)
  have dw: "date_window sample_world 365 = Inr (ustr ''20250101'', ustr ''20260101'')"
    by (simp add: sample_world_def)
  have pv: "per_article sample_world (ustr ''Berlin'') (ustr ''20250101'') (ustr ''20260101'') =
     Inl (Exn OtherException (ustr ''503 Service Unavailable''))"
    by (simp add: sample_world_def ustr_def)
  from pageview_failure_error_lost [OF a1 a2 a3 a4 a5 a6 dw pv, of sample_unicode "ustr ''berlin''"
      None "[]" "[]"] r
  have "fst (get_wikipedia_data sample_unicode sample_world None (ustr ''berlin'') [] [] 365) =
     Inr \<lparr>title = ustr ''Berlin'',
          length_info = Some (length (ustr ''Berlin is the capital of Germany.'')),
          views = None, url = Some (ustr ''https://en.wikipedia.org/wiki/Berlin''),
          found = True,
          error = Some (ustr ''Unexpected error: '' @ message zero_views_attribute_error)\<rparr>"
    by blast
  then show ?thesis
    using a1 r dw pv by (simp add: zero_views_attribute_error_def ustr_def)
qed

lemma fetch_selected_claude:
  "wp (fetch_selected_page w days sel)
      (\<lambda>_ s' tr'. calls_to Claude tr' = calls_to Claude tr)
      (\<lambda>e s' tr'. calls_to Claude tr' = calls_to Claude tr) s tr"
  unfolding fetch_selected_page_def
  apply (simp add: wp_simps split: sum.splits)
  apply (auto intro!: wp_mono [OF populate_claude] simp: wp_simps calls_to_def)
  done

lemma fetch_and_resolve_claude:
  "wp (fetch_and_resolve w client tc q a days)
      (\<lambda>_ s' tr'. calls_to Claude tr' \<le> 1)
      (\<lambda>e s' tr'. calls_to Claude tr' \<le> 1) s []"
  unfolding fetch_and_resolve_def
  apply (simp add: wp_simps wp_resolve_disambiguation Let_def split: sum.splits option.splits)
  apply (auto intro!: wp_mono [OF populate_claude] wp_mono [OF fetch_selected_claude]
      simp: wp_simps calls_to_def)
  done

lemma claude_called_at_most_once:
  "calls_to Claude (snd (get_wikipedia_data U w client entity_name question answer days)) \<le> 1"
  unfolding get_wikipedia_data_def Let_def
  apply (subst wp_run [where P = "\<lambda>out. calls_to Claude (snd out) \<le> 1"])
  apply (simp only: wp_try)
  apply (rule wp_mono [OF fetch_and_resolve_claude])
   apply (simp_all add: wp_simps)
  done

text \<open>
  C6. A run of the resolver calls the language model at most once. When the title selected
  on a disambiguation page names a page that does not exist or that is a disambiguation
  page again, the result is the unresolved one: \<open>found = False\<close>, the error that names the
  entity and lists up to five options, and the one call to the language model that selected
  the title.
\<close>

theorem one_level_of_disambiguation:
  "calls_to Claude (snd (get_wikipedia_data U w client entity_name question answer days)) \<le> 1 \<and>
   (wiki_api_page w (to_title_case U entity_name) = Inr d \<and> exists_call d = Inr True \<and>
    categories_attr d = Inr dcats \<and> is_disambiguation dcats \<and> links_attr d = Inr links \<and>
    options = (if links = [] then [to_title_case U entity_name @ ustr '' (disambiguation)'']
               else links) \<and>
    fst (run (resolve_disambiguation client (to_title_case U entity_name) options question answer) ())
      = Inr (Some sel) \<and>
    wiki_api_page w sel = Inr p \<and>
    (exists_call p = Inr False \<or>
     exists_call p = Inr True \<and> categories_attr p = Inr pcats \<and> is_disambiguation pcats)
    \<longrightarrow>
    fst (get_wikipedia_data U w client entity_name question answer days) =
      Inr \<lparr>title = to_title_case U entity_name, length_info = None, views = None, url = None,
           found = False,
           error = Some (ustr ''Disambiguation: '' @ to_title_case U entity_name @ ustr ''. ''
                         @ ustr ''Options: '' @ str_join (ustr '', '') (take 5 options)
                         @ ustr ''...'')\<rparr> \<and>
    calls_to Claude (snd (get_wikipedia_data U w client entity_name question answer days)) = 1)"
proof (intro conjI impI)
  show "calls_to Claude (snd (get_wikipedia_data U w client entity_name question answer days)) \<le> 1"
    by (rule claude_called_at_most_once)
next
  assume h: "wiki_api_page w (to_title_case U entity_name) = Inr d \<and> exists_call d = Inr True \<and>
    categories_attr d = Inr dcats \<and> is_disambiguation dcats \<and> links_attr d = Inr links \<and>
    options = (if links = [] then [to_title_case U entity_name @ ustr '' (disambiguation)'']
               else links) \<and>
    fst (run (resolve_disambiguation client (to_title_case U entity_name) options question answer) ())
      = Inr (Some sel) \<and>
    wiki_api_page w sel = Inr p \<and>
    (exists_call p = Inr False \<or>
     exists_call p = Inr True \<and> categories_attr p = Inr pcats \<and> is_disambiguation pcats)"
  then have d: "wiki_api_page w (to_title_case U entity_name) = Inr d" "exists_call d = Inr True"
      "categories_attr d = Inr dcats" "is_disambiguation dcats" "links_attr d = Inr links"
    and o: "(if links = [] then [to_title_case U entity_name @ ustr '' (disambiguation)'']
               else links) = options"
    and sel: "fst (run (resolve_disambiguation client (to_title_case U entity_name) options
                 question answer) ()) = Inr (Some sel)"
    and p: "wiki_api_page w sel = Inr p"
    and bad: "exists_call p = Inr False \<or>
     exists_call p = Inr True \<and> categories_attr p = Inr pcats \<and> is_disambiguation pcats"
    by blast+
  note ne = resolve_disambiguation_nonempty [OF sel]
  have "get_wikipedia_data U w client entity_name question answer days =
      (Inr \<lparr>title = to_title_case U entity_name, length_info = None, views = None, url = None,
           found = False,
           error = Some (ustr ''Disambiguation: '' @ to_title_case U entity_name @ ustr ''. ''
                         @ ustr ''Options: '' @ str_join (ustr '', '') (take 5 options)
                         @ ustr ''...'')\<rparr>,
       snd (get_wikipedia_data U w client entity_name question answer days)) \<and>
     calls_to Claude (snd (get_wikipedia_data U w client entity_name question answer days)) = 1"
    unfolding get_wikipedia_data_def Let_def
    apply (subst wp_run [where P = "\<lambda>out. out =
      (Inr \<lparr>title = to_title_case U entity_name, length_info = None, views = None, url = None,
           found = False,
           error = Some (ustr ''Disambiguation: '' @ to_title_case U entity_name @ ustr ''. ''
                         @ ustr ''Options: '' @ str_join (ustr '', '') (take 5 options)
                         @ ustr ''...'')\<rparr>, snd out) \<and> calls_to Claude (snd out) = 1"])
    using bad
    apply (auto simp add: fetch_and_resolve_def wp_simps d Let_def o
        run_resolve_disambiguation [OF sel] ne fetch_selected_page_def p calls_to_def
        split del: if_split)
    done
  then show "fst (get_wikipedia_data U w client entity_name question answer days) =
      Inr \<lparr>title = to_title_case U entity_name, length_info = None, views = None, url = None,
           found = False,
           error = Some (ustr ''Disambiguation: '' @ to_title_case U entity_name @ ustr ''. ''
                         @ ustr ''Options: '' @ str_join (ustr '', '') (take 5 options)
                         @ ustr ''...'')\<rparr>"
    and "calls_to Claude (snd (get_wikipedia_data U w client entity_name question answer days)) = 1"
    by (metis fst_conv, simp)
qed


theorem one_level_of_disambiguation_witness:
  "wiki_api_page sample_world (to_title_case sample_unicode (ustr ''mercury'')) =
     Inr (disambiguation_page (ustr ''Mercury'')
            [ustr ''Mercury (planet)'', ustr ''Mercury (element)'', ustr ''Mercury (name)'']) \<and>
   fst (run (resolve_disambiguation (Some (sample_client (ustr ''Mercury (name)'')))
               (to_title_case sample_unicode (ustr ''mercury''))
               [ustr ''Mercury (planet)'', ustr ''Mercury (element)'', ustr ''Mercury (name)'']
               (ustr ''Who sang Bohemian Rhapsody?'') (ustr ''Freddie Mercury'')) ())
     = Inr (Some (ustr ''Mercury (name)'')) \<and>
   wiki_api_page sample_world (ustr ''Mercury (name)'') =
     Inr (disambiguation_page (ustr ''Mercury (name)'') [ustr ''Freddie Mercury'']) \<and>
   fst (get_wikipedia_data sample_unicode sample_world (Some (sample_client (ustr ''Mercury (name)'')))
          (ustr ''mercury'') (ustr ''Who sang Bohemian Rhapsody?'') (ustr ''Freddie Mercury'') 365) =
     Inr \<lparr>title = ustr ''Mercury'', length_info = None, views = None, url = None, found = False,
          error = Some (ustr ''Disambiguation: Mercury. Options: Mercury (planet), Mercury (element), Mercury (name)...'')\<rparr> \<and>
   calls_to Claude
     (snd (get_wikipedia_data sample_unicode sample_world (Some (sample_client (ustr ''Mercury (name)'')))
          (ustr ''mercury'') (ustr ''Who sang Bohemian Rhapsody?'') (ustr ''Freddie Mercury'') 365)) = 1"
proof -
  let ?links = "[ustr ''Mercury (planet)'', ustr ''Mercury (element)'', ustr ''Mercury (name)'']"
  let ?d = "disambiguation_page (ustr ''Mercury'') ?links"
  let ?p = "disambiguation_page (ustr ''Mercury (name)'') [ustr ''Freddie Mercury'']"
  let ?c = "Some (sample_client (ustr ''Mercury (name)''))"
  have t: "to_title_case sample_unicode (ustr ''mercury'') = ustr ''Mercury''"
    by (simp add: str_eval)
  have d: "wiki_api_page sample_world (to_title_case sample_unicode (ustr ''mercury'')) = Inr ?d"
    unfolding t by (simp add: sample_world_def ustr_def)
  have d': "exists_call ?d = Inr True"
      "categories_attr ?d = Inr [ustr ''Category:All disambiguation pages'']"
      "is_disambiguation [ustr ''Category:All disambiguation pages'']"
      "links_attr ?d = Inr ?links"
    by (simp_all add: disambiguation_page_def is_disambiguation_def)
  have o: "?links = (if ?links = []
              then [to_title_case sample_unicode (ustr ''mercury'') @ ustr '' (disambiguation)'']
              else ?links)"
    by simp
  have sel: "fst (run (resolve_disambiguation ?c (to_title_case sample_unicode (ustr ''mercury''))
               ?links (ustr ''Who sang Bohemian Rhapsody?'') (ustr ''Freddie Mercury'')) ())
     = Inr (Some (ustr ''Mercury (name)''))"
    by (simp add: resolve_disambiguation_def io_eval sample_client_def quote_chars_def
        strip_chars_def str_strip_def strip_by_def lstrip_by_def rstrip_by_def is_space_def ustr_def)
  have p: "wiki_api_page sample_world (ustr ''Mercury (name)'') = Inr ?p"
    by (simp add: sample_world_def ustr_def)
  have p': "exists_call ?p = Inr True \<and>
      categories_attr ?p = Inr [ustr ''Category:All disambiguation pages''] \<and>
      is_disambiguation [ustr ''Category:All disambiguation pages'']"
    by (simp add: disambiguation_page_def is_disambiguation_def)
  have e: "ustr ''Disambiguation: '' @ to_title_case sample_unicode (ustr ''mercury'') @ ustr ''. ''
             @ ustr ''Options: '' @ str_join (ustr '', '') (take 5 ?links) @ ustr ''...'' =
           ustr ''Disambiguation: Mercury. Options: Mercury (planet), Mercury (element), Mercury (name)...''"
    unfolding t by (simp add: ustr_def)
  from one_level_of_disambiguation [where U = sample_unicode and w = sample_world and client = ?c
      and entity_name = "ustr ''mercury''" and question = "ustr ''Who sang Bohemian Rhapsody?''"
      and answer = "ustr ''Freddie Mercury''" and days = 365 and d = ?d
      and dcats = "[ustr ''Category:All disambiguation pages'']" and links = ?links
      and options = ?links and sel = "ustr ''Mercury (name)''" and p = ?p
      and pcats = "[ustr ''Category:All disambiguation pages'']"]
    d d' o sel p p'
  have "fst (get_wikipedia_data sample_unicode sample_world ?c
          (ustr ''mercury'') (ustr ''Who sang Bohemian Rhapsody?'') (ustr ''Freddie Mercury'') 365) =
      Inr \<lparr>title = to_title_case sample_unicode (ustr ''mercury''), length_info = None, views = None,
           url = None, found = False,
           error = Some (ustr ''Disambiguation: '' @ to_title_case sample_unicode (ustr ''mercury'')
                         @ ustr ''. '' @ ustr ''Options: '' @ str_join (ustr '', '') (take 5 ?links)
                         @ ustr ''...'')\<rparr> \<and>
    calls_to Claude (snd (get_wikipedia_data sample_unicode sample_world ?c
          (ustr ''mercury'') (ustr ''Who sang Bohemian Rhapsody?'') (ustr ''Freddie Mercury'') 365)) = 1"
    by blast
  then show ?thesis unfolding e using d sel p t by simp
qed

lemma strip_by_all: "list_all P s \<Longrightarrow> strip_by P s = []"
proof -
  assume "list_all P s"
  then have "\<forall>x\<in>set (rev s). P x" by (simp add: list_all_iff)
  then have d: "dropWhile P (rev s) = []" by (rule dropWhile_eq_Nil_conv [THEN iffD2])
  show ?thesis unfolding strip_by_def lstrip_by_def rstrip_by_def d by simp
qed

text \<open>
  C9. For an input text that is empty or consists of whitespace only, the pair structurer
  returns the empty list (not \<open>None\<close>, its failure signal) and calls no service, whatever
  the client and the JSON parser are.
\<close>

theorem structure_qa_pairs_blank:
  assumes "list_all is_space text_input"
  shows "run (structure_qa_pairs json_loads client text_input) s = (Inr (Some []), [])"
  using assms
  by (simp add: structure_qa_pairs_def str_strip_def strip_by_all run_def ret_def)

theorem structure_qa_pairs_blank_witness:
  "list_all is_space [32, 9, 10, 160] \<and>
   run (structure_qa_pairs (\<lambda>text. Inl (Exn JSONDecodeError [])) (Some failing_client)
          [32, 9, 10, 160]) () = (Inr (Some []), []) \<and>
   run (structure_qa_pairs (\<lambda>text. Inl (Exn JSONDecodeError [])) (Some failing_client)
          (ustr ''Q: What is the capital of France? A: Paris'')) () =
     (Inr None, [(Claude, Some (Exn APIError (ustr ''overloaded'')))])"
proof -
  have h: "list_all is_space [32, 9, 10, 160]"
    by (simp add: is_space_def)
  have o: "run (structure_qa_pairs (\<lambda>text. Inl (Exn JSONDecodeError [])) (Some failing_client)
          (ustr ''Q: What is the capital of France? A: Paris'')) () =
     (Inr None, [(Claude, Some (Exn APIError (ustr ''overloaded'')))])"
    by (simp add: structure_qa_pairs_def str_strip_def strip_by_def lstrip_by_def rstrip_by_def
        is_space_def ustr_def io_eval failing_client_def)
  from structure_qa_pairs_blank [OF h, of "\<lambda>text. Inl (Exn JSONDecodeError [])" "Some failing_client" "()"]
    h o
  show ?thesis by simp
qed

text \<open>
  C4. The disambiguation resolver never raises. It returns \<open>None\<close>, or the text of the
  response stripped of surrounding whitespace and then of surrounding quote characters,
  and that title is a member of the whole list of options, of which only the first fifteen
  were sent in the request. When the call to the language model raises, it returns \<open>None\<close>.
\<close>

theorem resolve_disambiguation_valid:
  "\<exists>r. fst (run (resolve_disambiguation client entity_name options question answer) s) = Inr r \<and>
       (\<forall>t. r = Some t \<longrightarrow>
          t \<in> set options \<and>
          (\<exists>c response_text.
             client = Some c \<and>
             c (DisambiguationRequest entity_name question answer (take 15 options))
               = Inr response_text \<and>
             t = strip_chars quote_chars (str_strip response_text))) \<and>
       (list_ex (\<lambda>ev. snd ev \<noteq> None)
          (snd (run (resolve_disambiguation client entity_name options question answer) s))
        \<longrightarrow> r = None)"
  apply (subst wp_run [where P = "\<lambda>out. \<exists>r. fst out = Inr r \<and>
       (\<forall>t. r = Some t \<longrightarrow>
          t \<in> set options \<and>
          (\<exists>c response_text.
             client = Some c \<and>
             c (DisambiguationRequest entity_name question answer (take 15 options))
               = Inr response_text \<and>
             t = strip_chars quote_chars (str_strip response_text))) \<and>
       (list_ex (\<lambda>ev. snd ev \<noteq> None) (snd out) \<longrightarrow> r = None)"])
  apply (auto simp add: wp_resolve_disambiguation Let_def split: option.splits sum.splits)
  done


theorem resolve_disambiguation_valid_witness:
  "fst (run (resolve_disambiguation
               (Some (sample_client ([32, 34] @ ustr ''John Smith (P)'' @ [34, 10])))
               (ustr ''John Smith'') sixteen_options (ustr ''Who founded Jamestown?'')
               (ustr ''John Smith'')) ()) = Inr (Some (ustr ''John Smith (P)'')) \<and>
   ustr ''John Smith (P)'' \<in> set sixteen_options \<and>
   ustr ''John Smith (P)'' \<notin> set (take 15 sixteen_options)"
proof -
  let ?c = "Some (sample_client ([32, 34] @ ustr ''John Smith (P)'' @ [34, 10]))"
  have e: "fst (run (resolve_disambiguation ?c (ustr ''John Smith'') sixteen_options
               (ustr ''Who founded Jamestown?'') (ustr ''John Smith'')) ())
             = Inr (Some (ustr ''John Smith (P)''))"
    by (simp add: resolve_disambiguation_def io_eval sample_client_def quote_chars_def
        strip_chars_def str_strip_def strip_by_def lstrip_by_def rstrip_by_def is_space_def ustr_def
        sixteen_options_def)
  have n: "ustr ''John Smith (P)'' \<notin> set (take 15 sixteen_options)"
    by (simp add: sixteen_options_def ustr_def)
  from resolve_disambiguation_valid [of ?c "ustr ''John Smith''" sixteen_options
      "ustr ''Who founded Jamestown?''" "ustr ''John Smith''" "()"] e
  have "ustr ''John Smith (P)'' \<in> set sixteen_options"
    by auto
  with e n show ?thesis by simp
qed

subsection \<open>The merge of the entity lists\<close>

lemma combined_entities_foldl:
  "combined_entities U ae qe mt = foldl (store_entity U) [] (map Some ae @ map Some qe @ [mt])"
  by (simp add: combined_entities_def)

lemma distinct_store_entity: "distinct (map fst d) \<Longrightarrow> distinct (map fst (store_entity U d x))"
  by (simp add: store_entity_def distinct_update split: option.splits)

lemma distinct_foldl_store:
  "distinct (map fst d) \<Longrightarrow> distinct (map fst (foldl (store_entity U) d xs))"
  by (induction xs arbitrary: d) (simp_all add: distinct_store_entity)

lemma map_of_foldl_store:
  "map_of (foldl (store_entity U) d xs) k =
     (case filter (\<lambda>e. e \<noteq> [] \<and> normalize_text U e = k)
             (concat (map (\<lambda>x. case x of None \<Rightarrow> [] | Some e \<Rightarrow> [e]) xs)) of
        [] \<Rightarrow> map_of d k
      | y # ys \<Rightarrow> Some (last (y # ys)))"
proof (induction xs arbitrary: d)
  case Nil
  then show ?case by simp
next
  case (Cons x xs)
  show ?case
    apply (simp add: Cons.IH)
    apply (cases x)
     apply (simp_all add: store_entity_def update_conv' split: list.splits)
    done
qed

lemma single_entry:
  "distinct (map fst al) \<Longrightarrow> map_of al k = Some v \<Longrightarrow> filter (\<lambda>kv. fst kv = k) al = [(k, v)]"
proof (induction al)
  case Nil
  then show ?case by simp
next
  case (Cons p al)
  show ?case
  proof (cases "fst p = k")
    case True
    with Cons.prems have "p = (k, v)" by (cases p) simp
    moreover from Cons.prems(1) True have "k \<notin> set (map fst al)"
      by simp
    then have "\<forall>kv\<in>set al. fst kv \<noteq> k"
      by (metis image_eqI set_map)
    then have "filter (\<lambda>kv. fst kv = k) al = []"
      by (simp add: filter_empty_conv)
    ultimately show ?thesis by simp
  next
    case False
    with Cons show ?thesis by (cases p) auto
  qed
qed

text \<open>
  C1 (as amended). The dictionary of the merge has one item for each normalized key, and
  the spelling kept for a key is the last candidate, in the order answer entities, question
  entities, key entity, that is not empty and has this normal form: each assignment to a
  key that is present replaces the spelling stored before.
\<close>

theorem combined_entities_last_spelling:
  "distinct (map fst (combined_entities U answer_ents question_ents main_topic)) \<and>
   map_of (combined_entities U answer_ents question_ents main_topic) k =
     (case filter (\<lambda>e. e \<noteq> [] \<and> normalize_text U e = k)
             (answer_ents @ question_ents @ (case main_topic of None \<Rightarrow> [] | Some t \<Rightarrow> [t])) of
        [] \<Rightarrow> None
      | y # ys \<Rightarrow> Some (last (y # ys)))"
  by (simp add: combined_entities_foldl distinct_foldl_store map_of_foldl_store o_def
      del: foldl_append split: list.splits)

theorem combined_entities_last_spelling_witness:
  "map_of (combined_entities sample_unicode [ustr ''Paris'', ustr ''France''] [ustr ''PARIS'']
             (Some (ustr ''paris''))) (ustr ''paris'') = Some (ustr ''paris'') \<and>
   distinct (map fst (combined_entities sample_unicode [ustr ''Paris'', ustr ''France'']
             [ustr ''PARIS''] (Some (ustr ''paris''))))"
  using combined_entities_last_spelling [of sample_unicode "[ustr ''Paris'', ustr ''France'']"
      "[ustr ''PARIS'']" "Some (ustr ''paris'')" "ustr ''paris''"]
  by (simp add: str_eval)

theorem combined_entities_first_spelling_counterexample:
  "normalize_text sample_unicode (ustr ''Paris'') = normalize_text sample_unicode (ustr ''paris'') \<and>
   combined_entities sample_unicode [ustr ''Paris''] [] (Some (ustr ''paris'')) =
     [(ustr ''paris'', ustr ''paris'')]"
  by (simp add: combined_entities_def store_entity_def str_eval)

text \<open>
  C10. Two non-empty names whose NFKD decomposition has no ASCII code point both have the
  empty normal form, so each is found in a list that holds the other, and when both are
  among the candidates of a merge the dictionary has exactly one item under the empty key.
\<close>

theorem non_ascii_names_collapse:
  assumes "a \<noteq> []" and "b \<noteq> []"
    and "\<forall>c\<in>set (str_nfkd U a). \<not> is_ascii c"
    and "\<forall>c\<in>set (str_nfkd U b). \<not> is_ascii c"
    and "a \<in> set (answer_ents @ question_ents @ (case main_topic of None \<Rightarrow> [] | Some t \<Rightarrow> [t]))"
    and "b \<in> set (answer_ents @ question_ents @ (case main_topic of None \<Rightarrow> [] | Some t \<Rightarrow> [t]))"
  shows "normalize_text U a = [] \<and> normalize_text U b = [] \<and>
         in_list_case_insensitive U a [b] \<and> in_list_case_insensitive U b [a] \<and>
         (\<exists>v. filter (\<lambda>kv. fst kv = []) (combined_entities U answer_ents question_ents main_topic)
                = [([], v)])"
proof -
  have na: "normalize_text U a = []"
    using assms(1,3)
    by (simp add: normalize_text_def encode_ascii_ignore_def str_lower_def str_strip_def
        strip_by_def lstrip_by_def rstrip_by_def filter_empty_conv)
  have nb: "normalize_text U b = []"
    using assms(2,4)
    by (simp add: normalize_text_def encode_ascii_ignore_def str_lower_def str_strip_def
        strip_by_def lstrip_by_def rstrip_by_def filter_empty_conv)
  let ?cands = "answer_ents @ question_ents @ (case main_topic of None \<Rightarrow> [] | Some t \<Rightarrow> [t])"
  have "a \<in> set (filter (\<lambda>e. e \<noteq> [] \<and> normalize_text U e = []) ?cands)"
    using assms(1,5) na by simp
  then have "filter (\<lambda>e. e \<noteq> [] \<and> normalize_text U e = []) ?cands \<noteq> []"
    by (metis empty_iff list.set(1))
  then obtain v where
    "map_of (combined_entities U answer_ents question_ents main_topic) [] = Some v"
    using combined_entities_last_spelling [of U answer_ents question_ents main_topic "[]"]
    by (auto split: list.splits)
  moreover have "distinct (map fst (combined_entities U answer_ents question_ents main_topic))"
    by (simp add: combined_entities_foldl distinct_foldl_store del: foldl_append)
  ultimately have "filter (\<lambda>kv. fst kv = []) (combined_entities U answer_ents question_ents main_topic)
      = [([], v)]"
    by (rule single_entry [rotated])
  with na nb show ?thesis
    by (auto simp: in_list_case_insensitive_def)
qed


theorem non_ascii_names_collapse_witness:
  "[26481, 20140] \<noteq> ([] :: pystr) \<and> [22823, 38442] \<noteq> ([] :: pystr) \<and>
   list_all (\<lambda>c. \<not> is_ascii c) (str_nfkd sample_unicode [26481, 20140]) \<and>
   list_all (\<lambda>c. \<not> is_ascii c) (str_nfkd sample_unicode [22823, 38442]) \<and>
   normalize_text sample_unicode [26481, 20140] = [] \<and>
   normalize_text sample_unicode [22823, 38442] = [] \<and>
   in_list_case_insensitive sample_unicode [26481, 20140] [[22823, 38442]] \<and>
   combined_entities sample_unicode [[26481, 20140]] [] (Some [22823, 38442])
     = [([], [22823, 38442])]"
proof -
  have a: "[26481, 20140] \<noteq> ([] :: pystr)" and b: "[22823, 38442] \<noteq> ([] :: pystr)"
    by simp_all
  have na: "\<forall>c\<in>set (str_nfkd sample_unicode [26481, 20140]). \<not> is_ascii c"
    and nb: "\<forall>c\<in>set (str_nfkd sample_unicode [22823, 38442]). \<not> is_ascii c"
    by (simp_all add: str_nfkd_def sample_unicode_def is_ascii_def)
  have ma: "[26481, 20140] \<in> set ([[26481, 20140]] @ [] @
              (case Some [22823, 38442] of None \<Rightarrow> [] | Some t \<Rightarrow> [t :: pystr]))"
    and mb: "[22823, 38442] \<in> set ([[26481, 20140]] @ [] @
              (case Some [22823, 38442] of None \<Rightarrow> [] | Some t \<Rightarrow> [t :: pystr]))"
    by simp_all
  have c: "combined_entities sample_unicode [[26481, 20140]] [] (Some [22823, 38442])
     = [([], [22823, 38442])]"
    by (simp add: combined_entities_def store_entity_def str_eval sample_unicode_def)
  from non_ascii_names_collapse [OF a b na nb ma mb] na nb c
  show ?thesis by (simp add: list_all_iff)
qed

subsection \<open>Title case of a name with a visible code point\<close>

lemma split_from_words:
  "cur \<noteq> [] \<or> list_ex (\<lambda>c. \<not> is_space c) s \<Longrightarrow> split_from cur s \<noteq> []"
proof (induction s arbitrary: cur)
  case Nil
  then show ?case by simp
next
  case (Cons c s)
  show ?case
  proof (cases "is_space c")
    case True
    with Cons.prems have "cur \<noteq> [] \<or> list_ex (\<lambda>c. \<not> is_space c) s" by simp
    with True Cons.IH [of "[]"] show ?thesis by (cases "cur = []") simp_all
  next
    case False
    with Cons.IH [of "cur @ [c]"] show ?thesis by simp
  qed
qed

lemma split_from_nonempty:
  "w \<in> set (split_from cur s) \<Longrightarrow> w \<noteq> []"
proof (induction s arbitrary: cur)
  case Nil
  then show ?case by (simp split: if_splits)
next
  case (Cons c s)
  then show ?case by (cases "is_space c"; cases "cur = []") (simp_all, blast+)
qed

lemma split_from_no_space:
  "w \<in> set (split_from cur s) \<Longrightarrow> \<forall>c\<in>set cur. \<not> is_space c \<Longrightarrow> \<forall>c\<in>set w. \<not> is_space c"
proof (induction s arbitrary: cur)
  case Nil
  then show ?case by (simp split: if_splits)
next
  case (Cons c s)
  show ?case
  proof (cases "is_space c")
    case True
    show ?thesis
    proof (cases "cur = []")
      case e: True
      with True Cons.prems have "w \<in> set (split_from [] s)" by simp
      from Cons.IH [OF this] show ?thesis by simp
    next
      case ne: False
      with True Cons.prems have "w = cur \<or> w \<in> set (split_from [] s)" by simp
      then show ?thesis
      proof
        assume "w = cur"
        with Cons.prems(2) show ?thesis by simp
      next
        assume "w \<in> set (split_from [] s)"
        from Cons.IH [OF this] show ?thesis by simp
      qed
    qed
  next
    case False
    with Cons.prems have m: "w \<in> set (split_from (cur @ [c]) s)" by simp
    from False Cons.prems(2) have "\<forall>d\<in>set (cur @ [c]). \<not> is_space d" by simp
    from Cons.IH [OF m this] show ?thesis .
  qed
qed


lemma str_join_visible:
  "ws \<noteq> [] \<Longrightarrow> list_ex (\<lambda>c. \<not> is_space c) (hd ws) \<Longrightarrow>
   list_ex (\<lambda>c. \<not> is_space c) (str_join sep ws)"
  by (induction sep ws rule: str_join.induct) simp_all

lemma str_join_nonempty: "w \<noteq> [] \<Longrightarrow> str_join sep (w # ws) \<noteq> []"
  by (cases ws) simp_all

lemma is_space_ascii_upper: "is_space (ascii_upper c) = is_space c"
  by (auto simp: is_space_def ascii_upper_def)

lemma str_capitalize_visible:
  assumes "word \<noteq> []" and "\<forall>c\<in>set word. \<not> is_space c"
    and "\<forall>v. v \<noteq> [] \<and> (\<forall>c\<in>set v. \<not> is_space c)
           \<longrightarrow> list_ex (\<lambda>c. \<not> is_space c) (lib_capitalize U v)"
  shows "list_ex (\<lambda>c. \<not> is_space c) (str_capitalize U word)"
proof (cases "list_all is_ascii word")
  case True
  with assms(1,2) show ?thesis
    by (cases word) (simp_all add: str_capitalize_def is_space_ascii_upper)
next
  case False
  with assms show ?thesis by (simp add: str_capitalize_def)
qed

lemma to_title_case_nonempty:
  assumes vis: "list_ex (\<lambda>c. \<not> is_space c) name"
    and lib: "\<forall>v. v \<noteq> [] \<and> (\<forall>c\<in>set v. \<not> is_space c)
           \<longrightarrow> list_ex (\<lambda>c. \<not> is_space c) (lib_capitalize U v)"
  shows "to_title_case U name \<noteq> []"
proof -
  from vis have ne: "name \<noteq> []" by auto
  let ?ws = "str_split name"
  from vis have ws: "?ws \<noteq> []" by (simp add: str_split_def split_from_words)
  then have "hd ?ws \<in> set ?ws" by simp
  then have "hd ?ws \<noteq> []" and "\<forall>c\<in>set (hd ?ws). \<not> is_space c"
    using split_from_nonempty [of "hd ?ws" "[]" name] split_from_no_space [of "hd ?ws" "[]" name]
    by (simp_all add: str_split_def)
  then have "list_ex (\<lambda>c. \<not> is_space c) (str_capitalize U (hd ?ws))"
    using lib by (rule str_capitalize_visible)
  with ws have "list_ex (\<lambda>c. \<not> is_space c) (hd (map (str_capitalize U) ?ws))"
    by (simp add: hd_map)
  with ws have "list_ex (\<lambda>c. \<not> is_space c) (capwords U name)"
    unfolding capwords_def by (intro str_join_visible) simp_all
  then have "str_split (capwords U name) \<noteq> []"
    by (simp add: str_split_def split_from_words)
  then obtain v vs where vs: "str_split (capwords U name) = v # vs"
    by (cases "str_split (capwords U name)") auto
  then have "v \<in> set (split_from [] (capwords U name))" by (simp add: str_split_def)
  then have "v \<noteq> []" by (rule split_from_nonempty)
  then show ?thesis
    using ne vs by (simp add: to_title_case_def Let_def str_join_nonempty)
qed

subsection \<open>The title of a result\<close>

lemma fetch_selected_title:
  "wp (fetch_selected_page w days sel)
      (\<lambda>_ s' tr'. (found s' = found s \<and> title s' = title s) \<or>
         found s' \<and> (title s' = title s \<or>
           (\<exists>t p. wiki_api_page w t = Inr p \<and> exists_call p = Inr True \<and>
                  title_attr p = Inr (title s'))))
      (\<lambda>e s' tr'. False) s tr"
  unfolding fetch_selected_page_def
  apply (simp add: wp_simps split: sum.splits)
  apply (auto intro!: wp_mono [OF populate_title] simp: wp_simps)
  done

lemma fetch_and_resolve_title:
  "wp (fetch_and_resolve w client tc q a days)
      (\<lambda>r s' tr'. r = s' \<and> ((found s' = found s \<and> title s' = title s) \<or>
         found s' \<and> (title s' = title s \<or>
           (\<exists>t p. wiki_api_page w t = Inr p \<and> exists_call p = Inr True \<and>
                  title_attr p = Inr (title s')))))
      (\<lambda>e s' tr'. (found s' = found s \<and> title s' = title s) \<or>
         found s' \<and> (title s' = title s \<or>
           (\<exists>t p. wiki_api_page w t = Inr p \<and> exists_call p = Inr True \<and>
                  title_attr p = Inr (title s'))))
      s []"
  unfolding fetch_and_resolve_def
  apply (simp add: wp_simps wp_resolve_disambiguation Let_def split: sum.splits option.splits)
  apply (auto intro!: wp_mono [OF populate_title] wp_mono [OF fetch_selected_title] simp: wp_simps)
  done


lemma split_from_blank: "list_all is_space s \<Longrightarrow> split_from [] s = []"
  by (induction s) simp_all

lemma to_title_case_blank: "list_all is_space name \<Longrightarrow> to_title_case U name = []"
  by (simp add: to_title_case_def capwords_def str_split_def split_from_blank Let_def)

lemma get_wikipedia_data_title:
  "\<exists>r. fst (get_wikipedia_data U w client entity_name question answer days) = Inr r \<and>
       (\<not> found r \<longrightarrow> title r = to_title_case U entity_name) \<and>
       (title r = to_title_case U entity_name \<or>
        (\<exists>t p. wiki_api_page w t = Inr p \<and> exists_call p = Inr True \<and>
               title_attr p = Inr (title r)))"
  unfolding get_wikipedia_data_def Let_def
  apply (subst wp_run [where P = "\<lambda>out. \<exists>r. fst out = Inr r \<and>
       (\<not> found r \<longrightarrow> title r = to_title_case U entity_name) \<and>
       (title r = to_title_case U entity_name \<or>
        (\<exists>t p. wiki_api_page w t = Inr p \<and> exists_call p = Inr True \<and>
               title_attr p = Inr (title r)))"])
  apply (simp only: wp_try)
  apply (rule wp_mono [OF fetch_and_resolve_title])
   apply (auto simp add: wp_simps)
  done

text \<open>
  C2 (as amended). For every entity name the resolver returns a result, and when that
  result has \<open>found = False\<close> its title is the title-cased name. For a name that is empty or
  of whitespace only the title-cased name is empty, so the title of such a result is empty.
  For a name that has a code point other than whitespace the title of the result is not
  empty, provided \<open>str.capitalize\<close> maps a non-empty word without whitespace to text that has
  a code point other than whitespace, and every existing Wikipedia page has a non-empty
  title.
\<close>

theorem title_nonempty:
  "\<exists>r. fst (get_wikipedia_data U w client entity_name question answer days) = Inr r \<and>
       (\<not> found r \<longrightarrow> title r = to_title_case U entity_name) \<and>
       (list_all is_space entity_name \<longrightarrow> to_title_case U entity_name = []) \<and>
       (list_all is_space entity_name \<and> \<not> found r \<longrightarrow> title r = []) \<and>
       (list_ex (\<lambda>c. \<not> is_space c) entity_name \<and>
        (\<forall>v. v \<noteq> [] \<and> (\<forall>c\<in>set v. \<not> is_space c)
           \<longrightarrow> list_ex (\<lambda>c. \<not> is_space c) (lib_capitalize U v)) \<and>
        (\<forall>t p x. wiki_api_page w t = Inr p \<and> exists_call p = Inr True \<and> title_attr p = Inr x
           \<longrightarrow> x \<noteq> [])
        \<longrightarrow> title r \<noteq> [])"
proof -
  from get_wikipedia_data_title [of U w client entity_name question answer days]
  obtain r where r: "fst (get_wikipedia_data U w client entity_name question answer days) = Inr r"
    and nf: "\<not> found r \<longrightarrow> title r = to_title_case U entity_name"
    and tt: "title r = to_title_case U entity_name \<or>
        (\<exists>t p. wiki_api_page w t = Inr p \<and> exists_call p = Inr True \<and>
               title_attr p = Inr (title r))"
    by blast
  have blank: "list_all is_space entity_name \<longrightarrow> to_title_case U entity_name = []"
    by (simp add: to_title_case_blank)
  have visible: "title r \<noteq> []"
    if "list_ex (\<lambda>c. \<not> is_space c) entity_name"
      and "\<forall>v. v \<noteq> [] \<and> (\<forall>c\<in>set v. \<not> is_space c)
           \<longrightarrow> list_ex (\<lambda>c. \<not> is_space c) (lib_capitalize U v)"
      and "\<forall>t p x. wiki_api_page w t = Inr p \<and> exists_call p = Inr True \<and> title_attr p = Inr x
           \<longrightarrow> x \<noteq> []"
  proof -
    have "to_title_case U entity_name \<noteq> []"
      using that(1,2) by (rule to_title_case_nonempty)
    with tt that(3) show ?thesis by metis
  qed
  from r nf blank visible show ?thesis by auto
qed

theorem title_nonempty_witness:
  "list_all is_space (ustr '' '') \<and>
   to_title_case sample_unicode (ustr '' '') = [] \<and>
   list_ex (\<lambda>c. \<not> is_space c) (ustr '' lord of the rings '') \<and>
   (\<exists>r. fst (get_wikipedia_data sample_unicode sample_world None (ustr '' lord of the rings '')
               [] [] 365) = Inr r \<and>
        \<not> found r \<and> title r \<noteq> [] \<and> title r = to_title_case sample_unicode (ustr '' lord of the rings '')
        \<and> title r = ustr ''Lord of the Rings'')"
proof -
  have s: "list_all is_space (ustr '' '')"
    by (simp add: ustr_def is_space_def)
  from title_nonempty [of sample_unicode sample_world None "ustr '' ''" "[]" "[]" 365] s
  have blank: "to_title_case sample_unicode (ustr '' '') = []"
    by blast
  have a: "list_ex (\<lambda>c. \<not> is_space c) (ustr '' lord of the rings '')"
    by (simp add: ustr_def is_space_def)
  have b: "\<forall>v. v \<noteq> [] \<and> (\<forall>c\<in>set v. \<not> is_space c)
           \<longrightarrow> list_ex (\<lambda>c. \<not> is_space c) (lib_capitalize sample_unicode v)"
  proof (intro allI impI)
    fix v :: pystr
    assume "v \<noteq> [] \<and> (\<forall>c\<in>set v. \<not> is_space c)"
    then show "list_ex (\<lambda>c. \<not> is_space c) (lib_capitalize sample_unicode v)"
      by (cases v) (auto simp add: sample_unicode_def is_space_ascii_upper, simp add: is_space_def)
  qed
  have c: "\<forall>t p x. wiki_api_page sample_world t = Inr p \<and> exists_call p = Inr True \<and>
             title_attr p = Inr x \<longrightarrow> x \<noteq> []"
    by (auto simp add: sample_world_def article_def disambiguation_page_def missing_page_def ustr_def
        split: if_splits)
  have e: "fst (get_wikipedia_data sample_unicode sample_world None (ustr '' lord of the rings '')
               [] [] 365) =
     Inr \<lparr>title = ustr ''Lord of the Rings'', length_info = None, views = None, url = None,
          found = False, error = Some (ustr ''Page not found on Wikipedia.'')\<rparr>"
    by (simp add: str_eval io_eval wiki_eval sample_eval)
  from title_nonempty [of sample_unicode sample_world None "ustr '' lord of the rings ''" "[]" "[]" 365]
    a b c e
  have "\<exists>r. fst (get_wikipedia_data sample_unicode sample_world None (ustr '' lord of the rings '')
               [] [] 365) = Inr r \<and>
        \<not> found r \<and> title r \<noteq> [] \<and>
        title r = to_title_case sample_unicode (ustr '' lord of the rings '') \<and>
        title r = ustr ''Lord of the Rings''"
    by auto
  with s blank a show ?thesis by blast
qed

theorem title_nonempty_counterexample:
  "fst (get_wikipedia_data sample_unicode sample_world None (ustr '' '') [] [] 365) =
     Inr \<lparr>title = [], length_info = None, views = None, url = None, found = False,
          error = Some (ustr ''Page not found on Wikipedia.'')\<rparr>"
  by (simp add: str_eval io_eval wiki_eval sample_eval)

end
